theory Spec2Isabelle
  imports Complex_Main "HOL-Library.Word" "HOL-Library.Multiset"
begin

section \<open>Strings and slash-separated paths\<close>

text \<open>
  Go strings are byte sequences; they are modelled as \<open>string\<close> (a list of 8-bit
  characters). The helpers of this section are the functions of Go's \<open>strings\<close> and
  \<open>path\<close> packages that the repository calls, written after their documentation.
\<close>

definition slash :: char where
  "slash = CHR ''/''"

definition backslash :: char where
  "backslash = CHR 0x5C"

definition strings_Count :: "string \<Rightarrow> char \<Rightarrow> nat" where
  \<comment> \<open>\<open>strings.Count(s, "/")\<close> for a one-byte separator\<close>
  "strings_Count s c = length (filter (\<lambda>x. x = c) s)"

definition strings_HasPrefix :: "string \<Rightarrow> string \<Rightarrow> bool" where
  "strings_HasPrefix s p = (take (length p) s = p)"

definition strings_HasSuffix :: "string \<Rightarrow> string \<Rightarrow> bool" where
  "strings_HasSuffix s suf =
     (length suf \<le> length s \<and> drop (length s - length suf) s = suf)"

definition strings_TrimSuffix :: "string \<Rightarrow> string \<Rightarrow> string" where
  "strings_TrimSuffix s suf =
     (if strings_HasSuffix s suf then take (length s - length suf) s else s)"

definition lower_char :: "char \<Rightarrow> char" where
  "lower_char c =
     (let n = (of_char c :: nat)
      in if 65 \<le> n \<and> n \<le> 90 then char_of (n + 32) else c)"

definition strings_ToLower :: "string \<Rightarrow> string" where
  \<comment> \<open>\<open>strings.ToLower\<close> on ASCII letters; other bytes are kept\<close>
  "strings_ToLower s = map lower_char s"

text \<open>Splitting at every slash, as \<open>strings.Split(s, "/")\<close> does.\<close>

fun split_slash :: "string \<Rightarrow> string list" where
  "split_slash [] = [[]]"
| "split_slash (c # cs) =
     (if c = slash then [] # split_slash cs
      else (case split_slash cs of
              [] \<Rightarrow> [[c]]
            | w # ws \<Rightarrow> (c # w) # ws))"

fun join_slash :: "string list \<Rightarrow> string" where
  "join_slash [] = []"
| "join_slash [w] = w"
| "join_slash (w # ws) = w @ slash # join_slash ws"

text \<open>
  \<open>path.Clean\<close>: empty and \<open>.\<close> elements are dropped, an inner \<open>..\<close> removes the
  element before it, a \<open>..\<close> at the start of a rooted path is dropped and one at the
  start of a relative path is kept. The accumulator holds the kept elements, last
  first.
\<close>

fun clean_elems :: "bool \<Rightarrow> string list \<Rightarrow> string list \<Rightarrow> string list" where
  "clean_elems rooted acc [] = rev acc"
| "clean_elems rooted acc (e # es) =
     (if e = [] \<or> e = ''.'' then clean_elems rooted acc es
      else if e = ''..'' then
        (case acc of
           [] \<Rightarrow> clean_elems rooted (if rooted then [] else [e]) es
         | a # as \<Rightarrow>
             if a = ''..'' then clean_elems rooted (e # acc) es
             else clean_elems rooted as es)
      else clean_elems rooted (e # acc) es)"

definition path_Clean :: "string \<Rightarrow> string" where
  "path_Clean p =
     (if p = [] then ''.''
      else
        (let rooted = (hd p = slash);
             out = join_slash (clean_elems rooted [] (split_slash p))
         in if rooted then slash # out
            else if out = [] then ''.'' else out))"

definition path_Join :: "string \<Rightarrow> string \<Rightarrow> string" where
  \<comment> \<open>\<open>path.Join(a, b)\<close>: empty elements are ignored, the rest is cleaned\<close>
  "path_Join a b =
     (if a = [] \<and> b = [] then []
      else if a = [] then path_Clean b
      else path_Clean (a @ slash # b))"

text \<open>
  \<open>lastSlash s k\<close> is the greatest index below \<open>k\<close> that holds a slash, the loop
  \<open>for i := len(s) - 1; i >= 0 && s[i] != '/'; i--\<close>.
\<close>

fun lastSlash :: "string \<Rightarrow> nat \<Rightarrow> nat option" where
  "lastSlash s 0 = None"
| "lastSlash s (Suc i) = (if s ! i = slash then Some i else lastSlash s i)"

definition path_Dir :: "string \<Rightarrow> string" where
  \<comment> \<open>\<open>dir, _ := Split(path); return Clean(dir)\<close>\<close>
  "path_Dir p =
     (case lastSlash p (length p) of
        None \<Rightarrow> path_Clean []
      | Some i \<Rightarrow> path_Clean (take (Suc i) p))"

fun strip_trailing_slashes :: "string \<Rightarrow> nat \<Rightarrow> string" where
  "strip_trailing_slashes s 0 = []"
| "strip_trailing_slashes s (Suc i) =
     (if s ! i = slash then strip_trailing_slashes s i else take (Suc i) s)"

definition path_Base :: "string \<Rightarrow> string" where
  "path_Base p =
     (if p = [] then ''.''
      else
        (let q = strip_trailing_slashes p (length p);
             r = (case lastSlash q (length q) of None \<Rightarrow> q | Some i \<Rightarrow> drop (Suc i) q)
         in if r = [] then ''/'' else r))"

subsection \<open>The repository's own string helpers (httpfs.go)\<close>

definition prefix :: "string \<Rightarrow> string \<Rightarrow> string" where
  "prefix s p = (if \<not> strings_HasPrefix s p then p @ s else s)"

text \<open>
  \<open>toBaseName\<close> scans from the last byte towards the first for a slash or a
  backslash; a separator in the last position is cut off and the scan starts again.
\<close>

fun lastSep :: "string \<Rightarrow> nat \<Rightarrow> nat option" where
  "lastSep s 0 = None"
| "lastSep s (Suc i) =
     (if s ! i = slash \<or> s ! i = backslash then Some i else lastSep s i)"

lemma lastSep_less: "lastSep s k = Some i \<Longrightarrow> i < k"
  by (induction k) (auto split: if_splits)

function toBaseName :: "string \<Rightarrow> string" where
  "toBaseName s =
     (case lastSep s (length s) of
        None \<Rightarrow> s
      | Some i \<Rightarrow> if Suc i = length s then toBaseName (take i s) else drop (Suc i) s)"
  by pat_completeness auto
termination
  by (relation "measure length") (auto dest: lastSep_less)

section \<open>Data model\<close>

text \<open>
  A \<open>time.Time\<close> is an instant, counted in nanoseconds from Go's zero time (January 1
  of year 1, 00:00:00 UTC); \<open>IsZero\<close> tests for that instant, \<open>UTC\<close> changes the
  location and not the instant, \<open>Before\<close> compares instants. Instants are unbounded
  integers here: the one addition of the program adds a second to a parsed HTTP date.
\<close>

type_synonym Time = int
type_synonym Duration = int
type_synonym FileMode = "32 word"
type_synonym bytes = "8 word list"

definition Second :: Duration where
  "Second = 1000000000"

definition Time_IsZero :: "Time \<Rightarrow> bool" where
  "Time_IsZero t = (t = 0)"

definition Time_UTC :: "Time \<Rightarrow> Time" where
  "Time_UTC t = t"

definition Time_Add :: "Time \<Rightarrow> Duration \<Rightarrow> Time" where
  "Time_Add t d = t + d"

definition Time_Before :: "Time \<Rightarrow> Time \<Rightarrow> bool" where
  "Time_Before t u = (t < u)"

definition ModeDir :: FileMode where
  \<comment> \<open>\<open>os.ModeDir\<close>, the highest bit of the mode\<close>
  "ModeDir = push_bit 31 1"

text \<open>
  Errors are values. \<open>Errorf msg e\<close> is \<open>fmt.Errorf(msg + ": %w", e)\<close>, an error
  that wraps \<open>e\<close>; \<open>ParseTimeError\<close> carries what \<open>http.ParseTime\<close> returned;
  \<open>ExternalError\<close> stands for the errors of the file provider and of the codecs;
  \<open>Panic\<close> is a run-time panic (a read through a nil reader).
\<close>

datatype parse_error = BadTime string

datatype error =
    ErrNotExist
  | errPreconditionFailed
  | Errorf string error
  | ParseTimeError parse_error
  | ExternalError string
  | Panic string

fun errors_Is :: "error \<Rightarrow> error \<Rightarrow> bool" where
  "errors_Is (Errorf msg e) target = (Errorf msg e = target \<or> errors_Is e target)"
| "errors_Is e target = (e = target)"

text \<open>
  An interface value is the record of what its methods return. \<open>os_FileInfo\<close> is
  \<open>os.FileInfo\<close> (without \<open>Sys\<close>).
\<close>

record os_FileInfo =
  Name :: string
  Size :: int
  Mode :: FileMode
  ModTime :: Time
  IsDir :: bool

text \<open>The cache's own \<open>fileInfo\<close> struct and its methods.\<close>

record fileInfo =
  fi_baseName :: string
  fi_modTime :: Time
  fi_isDir :: bool
  fi_mode :: FileMode

definition newFileInfo :: "string \<Rightarrow> FileMode \<Rightarrow> Time \<Rightarrow> fileInfo" where
  "newFileInfo baseName mode modTime =
     \<lparr>fi_baseName = baseName, fi_modTime = modTime,
      fi_isDir = (mode = ModeDir), fi_mode = mode\<rparr>"

definition fileInfo_Name :: "fileInfo \<Rightarrow> string" where
  "fileInfo_Name fi = fi_baseName fi"

definition fileInfo_Mode :: "fileInfo \<Rightarrow> FileMode" where
  "fileInfo_Mode fi = fi_mode fi"

definition fileInfo_ModTime :: "fileInfo \<Rightarrow> Time" where
  "fileInfo_ModTime fi = fi_modTime fi"

definition fileInfo_IsDir :: "fileInfo \<Rightarrow> bool" where
  "fileInfo_IsDir fi = fi_isDir fi"

definition fileInfo_Size :: "fileInfo \<Rightarrow> int" where
  "fileInfo_Size fi = 0"

definition fileInfo_iface :: "fileInfo \<Rightarrow> os_FileInfo" where
  \<comment> \<open>a \<open>*fileInfo\<close> held in an \<open>os.FileInfo\<close> variable\<close>
  "fileInfo_iface fi =
     \<lparr>Name = fileInfo_Name fi, Size = fileInfo_Size fi, Mode = fileInfo_Mode fi,
      ModTime = fileInfo_ModTime fi, IsDir = fileInfo_IsDir fi\<rparr>"

text \<open>
  The \<open>file\<close> struct (\<open>file\<close> is a keyword of Isabelle, hence the longer name): \<open>f_ReadSeeker\<close> is nil (\<open>None\<close>) in the cache store and a
  reader over the chosen contents in a file handed out by \<open>Get\<close>; \<open>f_algs\<close> is
  the variant map (a nil map has no key).
\<close>

record file_struct =
  f_ReadSeeker :: "bytes option"
  f_algs :: "string \<rightharpoonup> bytes"
  f_alg :: string
  f_name :: string
  f_baseName :: string
  f_info :: os_FileInfo

text \<open>
  The \<open>dir\<close> struct. Its children are \<open>os.FileInfo\<close> values: a \<open>*fileInfo\<close>, or a
  \<open>*dir\<close>, which answers \<open>Name\<close> with its own base name and every other method
  with its embedded \<open>FileInfo\<close>. Neither changes after the directory is made, so a
  child that is a \<open>*dir\<close> is kept as the answers of its methods.
\<close>

record dir =
  d_FileInfo :: os_FileInfo
  d_name :: string
  d_baseName :: string
  d_children :: "os_FileInfo list"

definition dir_iface :: "dir \<Rightarrow> os_FileInfo" where
  \<comment> \<open>a \<open>*dir\<close> held in an \<open>os.FileInfo\<close> variable\<close>
  "dir_iface d = (d_FileInfo d)\<lparr>Name := d_baseName d\<rparr>"

definition newFile :: "string \<Rightarrow> os_FileInfo \<Rightarrow> (string \<rightharpoonup> bytes) \<Rightarrow> file_struct" where
  "newFile name fi algs =
     \<lparr>f_ReadSeeker = None, f_algs = algs, f_alg = [], f_name = name,
      f_baseName = path_Base name, f_info = fi\<rparr>"

definition newDir :: "os_FileInfo \<Rightarrow> string \<Rightarrow> dir" where
  "newDir fi fullname =
     (let baseName = path_Base fullname
      in \<lparr>d_FileInfo = fileInfo_iface (newFileInfo baseName ModeDir (ModTime fi)),
          d_name = fullname, d_baseName = baseName, d_children = []\<rparr>)"

text \<open>
  A file opened on a provider that is not the cache: what \<open>Stat\<close>, \<open>Readdir(-1)\<close>
  and \<open>ioutil.ReadAll\<close> return on it.
\<close>

record provider_file =
  pf_Stat :: "error + os_FileInfo"
  pf_Readdir :: "error + os_FileInfo list"
  pf_ReadAll :: "error + bytes"

datatype http_File =
    cachedFile file_struct
  | cachedDir dir
  | providerFile provider_file

fun Stat :: "http_File \<Rightarrow> error + os_FileInfo" where
  "Stat (cachedFile f) = Inr (f_info f)"
| "Stat (cachedDir d) = Inr (d_FileInfo d)"
| "Stat (providerFile p) = pf_Stat p"

fun Readdir :: "http_File \<Rightarrow> error + os_FileInfo list" where
  "Readdir (cachedFile f) = Inl ErrNotExist"
| "Readdir (cachedDir d) = Inr (d_children d)"
| "Readdir (providerFile p) = pf_Readdir p"

fun ReadAll :: "http_File \<Rightarrow> error + bytes" where
  "ReadAll (cachedFile f) =
     (case f_ReadSeeker f of
        None \<Rightarrow> Inl (Panic ''nil ReadSeeker'')
      | Some contents \<Rightarrow> Inr contents)"
| "ReadAll (cachedDir d) = Inl (Panic ''nil ReadSeeker'')"
| "ReadAll (providerFile p) = pf_ReadAll p"

record request =
  Method :: string
  URL_Path :: string
  URL_RawQuery :: string
  RequestURI :: string
  Header :: "string \<Rightarrow> string list"

definition Header_Get :: "(string \<Rightarrow> string list) \<Rightarrow> string \<Rightarrow> string" where
  \<comment> \<open>\<open>http.Header.Get\<close>: the first value of the key, or the empty string\<close>
  "Header_Get h key = (case h key of [] \<Rightarrow> [] | v # _ \<Rightarrow> v)"

text \<open>
  \<open>http.FileSystem\<close> with the optional \<open>ropener\<close> method. A call that does not
  return has the value \<open>None\<close>.
\<close>

record http_FileSystem =
  Open :: "string \<Rightarrow> (error + http_File) option"
  Ropen :: "(string \<Rightarrow> request \<Rightarrow> (error + http_File) option) option"

record CacheOptions =
  CompressMinSize :: int
  CompressIgnore :: "(string \<Rightarrow> bool) option"
  Encodings :: "string list"

record cacheFS =
  c_n :: nat
  c_dirs :: "string \<rightharpoonup> dir"
  c_files :: "string \<rightharpoonup> file_struct"
  c_algs :: "string list"

section \<open>The cached file system\<close>

text \<open>
  \<open>file.Get\<close> calls itself with the empty name when the variant is missing; on a
  file without the empty-name variant that call never returns.
\<close>

partial_function (option) file_Get :: "file_struct \<Rightarrow> string \<Rightarrow> (error + http_File) option" where
  "file_Get f alg =
     (case f_algs f alg of
        Some contents \<Rightarrow>
          Some (Inr (cachedFile
            \<lparr>f_ReadSeeker = Some contents, f_algs = Map.empty, f_alg = alg,
             f_name = f_name f, f_baseName = f_baseName f, f_info = f_info f\<rparr>))
      | None \<Rightarrow> file_Get f [])"

definition rooted_name :: "string \<Rightarrow> string" where
  \<comment> \<open>\<open>if name == "" || name[0] != '/' { name = "/" + name }\<close>\<close>
  "rooted_name name = (if name = [] \<or> hd name \<noteq> slash then slash # name else name)"

definition cacheFS_Open :: "cacheFS \<Rightarrow> string \<Rightarrow> (error + http_File) option" where
  "cacheFS_Open c name0 =
     (let name = rooted_name name0
      in case c_dirs c name of
           Some d \<Rightarrow> Some (Inr (cachedDir d))
         | None \<Rightarrow>
             (case c_files c name of
                Some f \<Rightarrow> file_Get f []
              | None \<Rightarrow> Some (Inl ErrNotExist)))"

text \<open>
  \<open>compress.GetEncoding(r, c.algs)\<close> belongs to the codec registry: it is a
  parameter, a function from the request and the offered encodings to the negotiated
  name (its error result is dropped by the caller).
\<close>

definition cacheFS_Ropen ::
  "(request \<Rightarrow> string list \<Rightarrow> string) \<Rightarrow> cacheFS \<Rightarrow> string \<Rightarrow> request \<Rightarrow>
     (error + http_File) option" where
  "cacheFS_Ropen compress_GetEncoding c name0 r =
     (let name = rooted_name name0
      in case c_dirs c name of
           Some d \<Rightarrow> Some (Inr (cachedDir d))
         | None \<Rightarrow>
             (case c_files c name of
                Some f \<Rightarrow> file_Get f (compress_GetEncoding r (c_algs c))
              | None \<Rightarrow> Some (Inl ErrNotExist)))"

definition cacheFS_iface ::
  "(request \<Rightarrow> string list \<Rightarrow> string) \<Rightarrow> cacheFS \<Rightarrow> http_FileSystem" where
  \<comment> \<open>a \<open>*cacheFS\<close> held in an \<open>http.FileSystem\<close> variable\<close>
  "cacheFS_iface compress_GetEncoding c =
     \<lparr>Open = cacheFS_Open c, Ropen = Some (cacheFS_Ropen compress_GetEncoding c)\<rparr>"

definition GetEncoding :: "http_File option \<Rightarrow> string \<times> bool" where
  \<comment> \<open>\<open>None\<close> is the nil interface; the type assertion holds for a \<open>*file\<close> only\<close>
  "GetEncoding f =
     (case f of
        None \<Rightarrow> ([], False)
      | Some (cachedFile ff) \<Rightarrow> (f_alg ff, True)
      | Some _ \<Rightarrow> ([], False))"

section \<open>The cache builder\<close>

subsection \<open>findNames\<close>

text \<open>
  \<open>findNames\<close> recurses into every directory entry. Nothing bounds the depth of a
  provider, so the function takes fuel, one unit for each nested call; \<open>None\<close> means
  that the fuel did not suffice (or that a call of the provider did not return). The
  loop over the directory's entries takes the recursive call as \<open>rec\<close>.
\<close>

fun findNames_loop ::
  "(string \<Rightarrow> (error + string list) option) \<Rightarrow> string \<Rightarrow> os_FileInfo list \<Rightarrow>
     string list \<Rightarrow> (error + string list) option" where
  "findNames_loop rec name [] files = Some (Inr files)"
| "findNames_loop rec name (info # infos) files =
     (let filename = toBaseName (Name info);
          fullname = path_Join name filename
      in if fullname = name then findNames_loop rec name infos files
         else (case rec fullname of
                 None \<Rightarrow> None
               | Some (Inl err) \<Rightarrow> Some (Inl err)
               | Some (Inr rfiles) \<Rightarrow> findNames_loop rec name infos (files @ rfiles)))"

fun findNames :: "nat \<Rightarrow> http_FileSystem \<Rightarrow> string \<Rightarrow> (error + string list) option" where
  "findNames 0 fs name = None"
| "findNames (Suc fuel) fs name =
     (case Open fs name of
        None \<Rightarrow> None
      | Some (Inl err) \<Rightarrow> Some (Inl err)
      | Some (Inr f) \<Rightarrow>
          (case Stat f of
             Inl err \<Rightarrow> Some (Inl err)
           | Inr fi \<Rightarrow>
               if \<not> IsDir fi then Some (Inr [name])
               else (case Readdir f of
                       Inl err \<Rightarrow> Some (Inl err)
                     | Inr fileinfos \<Rightarrow> findNames_loop (findNames fuel fs) name fileinfos [])))"

subsection \<open>Sorting the names\<close>

text \<open>
  \<open>sort.Slice(names, less)\<close> with \<open>less(i, j) = strings.Count(names[j], "/") >
  strings.Count(names[i], "/")\<close>. The sort is the insertion sort of Go's \<open>sort\<close>
  package: each element moves towards the front while it is less than its left
  neighbour. \<open>sort_bubble lt x front\<close> takes the sorted front part last element
  first.
\<close>

definition names_less :: "string \<Rightarrow> string \<Rightarrow> bool" where
  \<comment> \<open>\<open>names_less a b\<close> is \<open>less(i, j)\<close> for \<open>a = names[i]\<close>, \<open>b = names[j]\<close>\<close>
  "names_less a b = (strings_Count b slash > strings_Count a slash)"

fun sort_bubble :: "('a \<Rightarrow> 'a \<Rightarrow> bool) \<Rightarrow> 'a \<Rightarrow> 'a list \<Rightarrow> 'a list" where
  "sort_bubble lt x [] = [x]"
| "sort_bubble lt x (y # front) =
     (if lt x y then y # sort_bubble lt x front else x # y # front)"

definition sort_Slice :: "('a \<Rightarrow> 'a \<Rightarrow> bool) \<Rightarrow> 'a list \<Rightarrow> 'a list" where
  "sort_Slice lt xs = rev (foldl (\<lambda>front x. sort_bubble lt x front) [] xs)"

subsection \<open>findDirs\<close>

text \<open>
  The map \<open>dirs\<close> holds pointers; each \<open>*dir\<close> is stored under one key, its full
  name, so the map is the store and a key is the pointer. \<open>append_child dirs key ch\<close>
  is \<open>p.children = append(p.children, ch)\<close> for the directory \<open>p\<close> stored under
  \<open>key\<close>. When a file lies in the root, \<open>parent\<close> and \<open>d\<close> are the same pointer
  and both appends reach the same directory, in the order of the code.
\<close>

definition append_child :: "(string \<rightharpoonup> dir) \<Rightarrow> string \<Rightarrow> os_FileInfo \<Rightarrow> (string \<rightharpoonup> dir)" where
  "append_child dirs key ch =
     (case dirs key of
        None \<Rightarrow> dirs
      | Some p \<Rightarrow> dirs(key \<mapsto> p\<lparr>d_children := d_children p @ [ch]\<rparr>))"

definition findDirs_step :: "os_FileInfo \<Rightarrow> string \<Rightarrow> (string \<rightharpoonup> dir) \<Rightarrow> (string \<rightharpoonup> dir)" where
  \<comment> \<open>the body of the loop after \<open>f.Stat()\<close> returned \<open>inf\<close> (here \<open>finfo\<close>)\<close>
  "findDirs_step finfo name dirs =
     (let dirName = path_Dir name;
          (d, dirs1) =
            (case dirs dirName of
               Some d \<Rightarrow> (d, dirs)
             | None \<Rightarrow>
                 (let fi = fileInfo_iface (newFileInfo (path_Base dirName) ModeDir (ModTime finfo));
                      d = newDir fi dirName
                  in (d, dirs(dirName \<mapsto> d))));
          fi = fileInfo_iface (newFileInfo (path_Base name) (Mode finfo) (ModTime finfo));
          parentName = path_Dir dirName;
          dirs2 =
            (case dirs1 parentName of
               Some parent \<Rightarrow> append_child dirs1 parentName (dir_iface d)
             | None \<Rightarrow> dirs1)
      in append_child dirs2 dirName fi)"

fun findDirs_loop ::
  "http_FileSystem \<Rightarrow> string list \<Rightarrow> (string \<rightharpoonup> dir) \<Rightarrow> (error + (string \<rightharpoonup> dir)) option" where
  "findDirs_loop fs [] dirs = Some (Inr dirs)"
| "findDirs_loop fs (name # names) dirs =
     (case Open fs name of
        None \<Rightarrow> None
      | Some (Inl err) \<Rightarrow> Some (Inl err)
      | Some (Inr f) \<Rightarrow>
          (case Stat f of
             Inl err \<Rightarrow> Some (Inl err)
           | Inr finfo \<Rightarrow> findDirs_loop fs names (findDirs_step finfo name dirs)))"

definition findDirs :: "http_FileSystem \<Rightarrow> string list \<Rightarrow> (error + (string \<rightharpoonup> dir)) option" where
  "findDirs fs names = findDirs_loop fs names Map.empty"

subsection \<open>cacheFiles\<close>

text \<open>
  The codec registry is a parameter: \<open>compress_NewWriter enc contents\<close> is what
  \<open>compress.NewWriter(buf, enc, -1)\<close>, \<open>w.Write(contents)\<close>, \<open>w.Close()\<close> leave in
  \<open>buf\<close>, or the error of \<open>NewWriter\<close> or \<open>Write\<close>. The regular expression is its
  \<open>MatchString\<close>, and \<open>None\<close> when the pointer is nil.
\<close>

definition variant_key :: "string \<Rightarrow> string" where
  \<comment> \<open>\<open>if alg == "brotli" { alg = "br" }\<close>\<close>
  "variant_key alg = (if alg = ''brotli'' then ''br'' else alg)"

definition ignore_matches :: "(string \<Rightarrow> bool) option \<Rightarrow> string \<Rightarrow> bool" where
  \<comment> \<open>\<open>compressIgnore != nil && compressIgnore.MatchString(name)\<close>\<close>
  "ignore_matches compressIgnore name =
     (case compressIgnore of None \<Rightarrow> False | Some re \<Rightarrow> re name)"

fun compress_loop ::
  "(string \<Rightarrow> bytes \<Rightarrow> error + bytes) \<Rightarrow> bytes \<Rightarrow> string list \<Rightarrow> (string \<rightharpoonup> bytes) \<Rightarrow>
     error + (string \<rightharpoonup> bytes)" where
  "compress_loop compress_NewWriter contents [] algs = Inr algs"
| "compress_loop compress_NewWriter contents (alg0 # compressAlgs) algs =
     (let alg = variant_key alg0
      in case compress_NewWriter (strings_ToLower alg) contents of
           Inl err \<Rightarrow> Inl err
         | Inr dest \<Rightarrow> compress_loop compress_NewWriter contents compressAlgs (algs(alg \<mapsto> dest)))"

text \<open>
  The code stores the file in \<open>list\<close> before it compresses and fills the shared map
  \<open>algs\<close> afterwards; the entry below is stored with the map as the loop leaves it.
  An error returns no list at all, so the two agree.
\<close>

definition cacheFiles_entry ::
  "(string \<Rightarrow> bytes \<Rightarrow> error + bytes) \<Rightarrow> string list \<Rightarrow> int \<Rightarrow> (string \<Rightarrow> bool) option \<Rightarrow>
     string \<Rightarrow> os_FileInfo \<Rightarrow> bytes \<Rightarrow> error + file_struct" where
  "cacheFiles_entry compress_NewWriter compressAlgs compressMinSize compressIgnore name finfo contents =
     (let fi = fileInfo_iface (newFileInfo (path_Base name) (Mode finfo) (ModTime finfo));
          algs = [[] \<mapsto> contents]
      in if compressMinSize > 0 \<and> compressMinSize > int (length contents)
         then Inr (newFile name fi algs)
         else if ignore_matches compressIgnore name
         then Inr (newFile name fi algs)
         else (case compress_loop compress_NewWriter contents compressAlgs algs of
                 Inl err \<Rightarrow> Inl err
               | Inr algs' \<Rightarrow> Inr (newFile name fi algs')))"

fun cacheFiles_loop ::
  "(string \<Rightarrow> bytes \<Rightarrow> error + bytes) \<Rightarrow> http_FileSystem \<Rightarrow> string list \<Rightarrow> string list \<Rightarrow>
     int \<Rightarrow> (string \<Rightarrow> bool) option \<Rightarrow> (string \<rightharpoonup> file_struct) \<Rightarrow>
     (error + (string \<rightharpoonup> file_struct)) option" where
  "cacheFiles_loop cw fs [] compressAlgs compressMinSize compressIgnore list = Some (Inr list)"
| "cacheFiles_loop cw fs (name # names) compressAlgs compressMinSize compressIgnore list =
     (case Open fs name of
        None \<Rightarrow> None
      | Some (Inl err) \<Rightarrow> Some (Inl err)
      | Some (Inr f) \<Rightarrow>
          (case Stat f of
             Inl err \<Rightarrow> Some (Inl err)
           | Inr finfo \<Rightarrow>
               (case ReadAll f of
                  Inl err \<Rightarrow> Some (Inl err)
                | Inr contents \<Rightarrow>
                    (case cacheFiles_entry cw compressAlgs compressMinSize compressIgnore
                            name finfo contents of
                       Inl err \<Rightarrow> Some (Inl err)
                     | Inr entry \<Rightarrow>
                         cacheFiles_loop cw fs names compressAlgs compressMinSize
                           compressIgnore (list(name \<mapsto> entry))))))"

definition cacheFiles ::
  "(string \<Rightarrow> bytes \<Rightarrow> error + bytes) \<Rightarrow> http_FileSystem \<Rightarrow> string list \<Rightarrow> string list \<Rightarrow>
     int \<Rightarrow> (string \<Rightarrow> bool) option \<Rightarrow> (error + (string \<rightharpoonup> file_struct)) option" where
  "cacheFiles cw fs names compressAlgs compressMinSize compressIgnore =
     cacheFiles_loop cw fs names compressAlgs compressMinSize compressIgnore Map.empty"

subsection \<open>Cache\<close>

text \<open>
  \<open>Cache\<close> returns the cache, or the error of the first step that failed (the Go
  function then also hands back the provider it was given). The time the build took
  (\<open>ttc\<close>) is only printed by \<open>Verbose\<close> and is left out.
\<close>

definition Cache ::
  "nat \<Rightarrow> (string \<Rightarrow> bytes \<Rightarrow> error + bytes) \<Rightarrow> http_FileSystem \<Rightarrow> CacheOptions \<Rightarrow>
     (error + cacheFS) option" where
  "Cache fuel cw fs options =
     (case findNames fuel fs ''/'' of
        None \<Rightarrow> None
      | Some (Inl err) \<Rightarrow> Some (Inl err)
      | Some (Inr names0) \<Rightarrow>
          (let names = sort_Slice names_less names0
           in case findDirs fs names of
                None \<Rightarrow> None
              | Some (Inl err) \<Rightarrow> Some (Inl err)
              | Some (Inr dirs) \<Rightarrow>
                  (case cacheFiles cw fs names (Encodings options) (CompressMinSize options)
                          (CompressIgnore options) of
                     None \<Rightarrow> None
                   | Some (Inl err) \<Rightarrow> Some (Inl err)
                   | Some (Inr files) \<Rightarrow>
                       Some (Inr \<lparr>c_n = length names, c_dirs = dirs, c_files = files,
                                  c_algs = Encodings options\<rparr>))))"

section \<open>The request-serving pipeline (httpfs.go)\<close>

subsection \<open>Conditional requests\<close>

text \<open>
  \<open>http.ParseTime\<close> is a parameter: it returns the parsed instant or its own error,
  which is of another type than the errors this package makes.
\<close>

definition checkIfModifiedSince ::
  "(string \<Rightarrow> parse_error + Time) \<Rightarrow> request \<Rightarrow> Time \<Rightarrow> bool \<times> error option" where
  "checkIfModifiedSince http_ParseTime r modtime =
     (if Method r \<noteq> ''GET'' \<and> Method r \<noteq> ''HEAD''
      then (False, Some (Errorf ''method'' errPreconditionFailed))
      else
        (let ims = Header_Get (Header r) ''If-Modified-Since''
         in if ims = [] \<or> Time_IsZero modtime
            then (False, Some (Errorf ''zero time'' errPreconditionFailed))
            else (case http_ParseTime ims of
                    Inl err \<Rightarrow> (False, Some (ParseTimeError err))
                  | Inr t \<Rightarrow>
                      if Time_Before (Time_UTC modtime) (Time_Add t Second)
                      then (False, None)
                      else (True, None))))"

subsection \<open>The response writer\<close>

text \<open>
  An \<open>http.ResponseWriter\<close> is the header map, the codes passed to \<open>WriteHeader\<close> in
  the order of the calls, and the body written so far (only the callbacks write one).
\<close>

record response =
  w_Header :: "string \<Rightarrow> string list"
  w_WriteHeader :: "nat list"
  w_body :: string

definition Header_Set :: "response \<Rightarrow> string \<Rightarrow> string \<Rightarrow> response" where
  "Header_Set w key v = w\<lparr>w_Header := (w_Header w)(key := [v])\<rparr>"

definition Header_Del :: "response \<Rightarrow> string \<Rightarrow> response" where
  "Header_Del w key = w\<lparr>w_Header := (w_Header w)(key := [])\<rparr>"

definition WriteHeader :: "response \<Rightarrow> nat \<Rightarrow> response" where
  "WriteHeader w code = w\<lparr>w_WriteHeader := w_WriteHeader w @ [code]\<rparr>"

definition StatusNotFound :: nat where "StatusNotFound = 404"
definition StatusNotModified :: nat where "StatusNotModified = 304"
definition StatusMovedPermanently :: nat where "StatusMovedPermanently = 301"
definition StatusInternalServerError :: nat where "StatusInternalServerError = 500"

definition writeNotModified :: "response \<Rightarrow> response" where
  "writeNotModified w =
     (let h = Header_Del (Header_Del w ''Content-Type'') ''Content-Length'';
          h = (if Header_Get (w_Header h) ''ETag'' \<noteq> [] then Header_Del h ''Last-Modified'' else h)
      in WriteHeader h StatusNotModified)"

definition writeLastModified :: "(Time \<Rightarrow> string) \<Rightarrow> response \<Rightarrow> Time \<Rightarrow> response" where
  \<comment> \<open>\<open>http_Format t\<close> is \<open>t.Format(http.TimeFormat)\<close>\<close>
  "writeLastModified http_Format w modtime =
     (if \<not> Time_IsZero modtime
      then Header_Set w ''Last-Modified'' (http_Format (Time_UTC modtime))
      else w)"

definition localRedirect :: "response \<Rightarrow> request \<Rightarrow> string \<Rightarrow> response" where
  "localRedirect w r newPath0 =
     (let q = URL_RawQuery r;
          newPath = (if q \<noteq> [] then newPath0 @ ''?'' @ q else newPath0)
      in WriteHeader (Header_Set w ''Location'' newPath) StatusMovedPermanently)"

definition compress_AddCompressHeaders :: "response \<Rightarrow> string \<Rightarrow> response" where
  \<comment> \<open>of the codec library: it sets \<open>Vary\<close> and \<open>Content-Encoding\<close>\<close>
  "compress_AddCompressHeaders w encoding =
     Header_Set (Header_Set w ''Vary'' ''Accept-Encoding'') ''Content-Encoding'' encoding"

subsection \<open>Options and collaborators\<close>

text \<open>
  A \<open>DirListFunc\<close> and the \<open>Allow\<close> hook write to the response they are given: they
  return the response as they leave it. The options a \<open>DirListFunc\<close> receives are
  those of the server and are not passed again. \<open>Limit\<close> is a \<open>float64\<close> in Go and a
  real number here; the handler compares it with zero and hands it to the limiter.
\<close>

type_synonym DirListFunc =
  "response \<Rightarrow> request \<Rightarrow> string \<Rightarrow> http_File \<Rightarrow> response \<times> error option"

record Attachments =
  Enable :: bool
  Limit :: real
  Burst :: int
  NameFunc :: "(string \<Rightarrow> string) option"

record Options =
  IndexName :: string
  PushTargets :: "(string \<times> string list) list"
  PushTargetsRegexp :: "(string \<times> (string \<Rightarrow> bool)) list"
  Compress :: bool
  ShowList :: bool
  DirList :: "DirListFunc option"
  Attachments_opts :: Attachments
  Allow :: "(response \<Rightarrow> request \<Rightarrow> string \<Rightarrow> response \<times> bool) option"

text \<open>
  What the handler takes from outside the repository: \<open>http.ParseTime\<close>, the format
  of \<open>http.TimeFormat\<close>, \<open>filepath.ToSlash\<close>, \<open>compress.NewResponseWriter(w, r, -1)\<close>
  (the wrapped writer or an error), the \<open>http.Pusher\<close> of the response writer when it
  has one (\<open>Push target withOptions\<close> returns the error), and the package's default
  listing \<open>DirList\<close>, whose HTML is not modelled.
\<close>

record collaborators =
  http_ParseTime :: "string \<Rightarrow> parse_error + Time"
  http_Format :: "Time \<Rightarrow> string"
  filepath_ToSlash :: "string \<Rightarrow> string"
  compress_NewResponseWriter :: "response \<Rightarrow> request \<Rightarrow> error + response"
  Pusher :: "(string \<Rightarrow> bool \<Rightarrow> error option) option"
  default_DirList :: DirListFunc

text \<open>
  The content handed to \<open>http.ServeContent\<close>: the file itself, or the file behind a
  \<open>rateReadSeeker\<close> with its limit and burst.
\<close>

datatype content =
    fileContent http_File
  | rateReadSeeker http_File real int

fun content_file :: "content \<Rightarrow> http_File" where
  \<comment> \<open>the file a content reads from\<close>
  "content_file (fileContent f) = f"
| "content_file (rateReadSeeker f limit burst) = f"

record ServeContent_call =
  sc_w :: response
  sc_name :: string
  sc_modtime :: Time
  sc_content :: content

text \<open>
  What one request leaves behind: the response writer, whether \<open>w\<close> was replaced by
  the compressing writer, the pushes attempted (target, and whether the request's
  headers went along), and the call of \<open>http.ServeContent\<close> when it was reached.
\<close>

record outcome =
  out_w :: response
  out_compressing :: bool
  out_pushes :: "(string \<times> bool) list"
  out_served :: "ServeContent_call option"

definition finished :: "response \<Rightarrow> outcome" where
  \<comment> \<open>the handler returns without serving content\<close>
  "finished w = \<lparr>out_w = w, out_compressing = False, out_pushes = [], out_served = None\<rparr>"

subsection \<open>FileServer\<close>

definition handler_open ::
  "http_FileSystem \<Rightarrow> string \<Rightarrow> request \<Rightarrow> (error + http_File) option" where
  \<comment> \<open>\<open>open\<close>: \<open>r.Ropen\<close> when the file system is a \<open>ropener\<close>, else \<open>fs.Open\<close>\<close>
  "handler_open fs name r =
     (case Ropen fs of
        Some ropen \<Rightarrow> ropen name r
      | None \<Rightarrow> Open fs name)"

text \<open>
  Lines 114 to 130: the index file takes the place of a directory. The result is
  \<open>f\<close>, \<open>info\<close> and \<open>indexFound\<close>.
\<close>

definition index_substitution ::
  "http_FileSystem \<Rightarrow> Options \<Rightarrow> string \<Rightarrow> request \<Rightarrow> http_File \<Rightarrow> os_FileInfo \<Rightarrow>
     (http_File \<times> os_FileInfo \<times> bool) option" where
  "index_substitution fs options name r f info =
     (if IsDir info \<and> IndexName options \<noteq> []
      then
        (let index = strings_TrimSuffix name ''/'' @ IndexName options
         in case handler_open fs index r of
              None \<Rightarrow> None
            | Some (Inl err) \<Rightarrow> Some (f, info, False)
            | Some (Inr fIndex) \<Rightarrow>
                (case Stat fIndex of
                   Inl err \<Rightarrow> Some (f, info, False)
                 | Inr infoIndex \<Rightarrow> Some (fIndex, infoIndex, True)))
      else Some (f, info, False))"

text \<open>
  Lines 133 to 152: the entry is still a directory. \<open>FileServer\<close> has set
  \<open>DirList\<close> when \<open>ShowList\<close> is on; calling a nil function would panic.
\<close>

definition serve_directory ::
  "collaborators \<Rightarrow> Options \<Rightarrow> response \<Rightarrow> request \<Rightarrow> http_File \<Rightarrow> os_FileInfo \<Rightarrow>
     error + response" where
  "serve_directory ext options w r f info =
     (if \<not> ShowList options then Inr (WriteHeader w StatusNotFound)
      else
        (case checkIfModifiedSince (http_ParseTime ext) r (ModTime info) of
           (modified, err) \<Rightarrow>
             if \<not> modified \<and> err = None then Inr (writeNotModified w)
             else
               (let w1 = writeLastModified (http_Format ext) w (ModTime info)
                in case DirList options of
                     None \<Rightarrow> Inl (Panic ''nil DirList'')
                   | Some dirList \<Rightarrow>
                       (case dirList w1 r (Name info) f of
                          (w2, Some err) \<Rightarrow> Inr (WriteHeader w2 StatusInternalServerError)
                        | (w2, None) \<Rightarrow> Inr w2))))"

text \<open>Lines 167 to 186: the content, and the disposition header of an attachment.\<close>

definition attachment_stage ::
  "Options \<Rightarrow> response \<Rightarrow> http_File \<Rightarrow> os_FileInfo \<Rightarrow> bool \<Rightarrow> content \<times> response" where
  "attachment_stage options w f info indexFound =
     (if \<not> indexFound \<and> Enable (Attachments_opts options)
      then
        (let destName = (case NameFunc (Attachments_opts options) of
                           Some nameFunc \<Rightarrow> nameFunc (Name info)
                         | None \<Rightarrow> Name info);
             w1 = Header_Set w ''Content-Disposition'' (''attachment;filename='' @ destName)
         in if Limit (Attachments_opts options) > 0
            then (rateReadSeeker f (Limit (Attachments_opts options))
                    (Burst (Attachments_opts options)), w1)
            else (fileContent f, w1))
      else (fileContent f, w))"

text \<open>
  Lines 193 to 208: the encoding saved by the negotiation. The result is the
  encoding, the response writer and whether the writer is now the compressing one.
\<close>

definition encoding_stage ::
  "collaborators \<Rightarrow> Options \<Rightarrow> response \<Rightarrow> request \<Rightarrow> http_File \<Rightarrow> string \<times> response \<times> bool" where
  "encoding_stage ext options w r f =
     (case GetEncoding (Some f) of
        (encoding, isCached) \<Rightarrow>
          if isCached
          then (if encoding \<noteq> []
                then (encoding, compress_AddCompressHeaders w encoding, False)
                else (encoding, w, False))
          else if Compress options
          then (case compress_NewResponseWriter ext w r of
                  Inr cr \<Rightarrow> (encoding, cr, True)
                | Inl err \<Rightarrow> (encoding, w, False))
          else (encoding, w, False))"

text \<open>
  Lines 210 to 266: the pushes. Both loops stop at the first push that fails; the
  failed push is in the list. An empty target panics on \<open>indexAsset[0]\<close>.
\<close>

fun push_targets ::
  "(string \<Rightarrow> bool \<Rightarrow> error option) \<Rightarrow> string \<Rightarrow> bool \<Rightarrow> string list \<Rightarrow>
     (string \<times> bool) list \<Rightarrow> error + (string \<times> bool) list \<times> bool" where
  "push_targets push uri opts [] pushed = Inr (pushed, True)"
| "push_targets push uri opts (indexAsset0 # indexAssets) pushed =
     (if indexAsset0 = [] then Inl (Panic ''index out of range'')
      else
        (let indexAsset = (if hd indexAsset0 \<noteq> slash then path_Join uri indexAsset0
                           else indexAsset0)
         in case push indexAsset opts of
              Some err \<Rightarrow> Inr (pushed @ [(indexAsset, opts)], False)
            | None \<Rightarrow> push_targets push uri opts indexAssets (pushed @ [(indexAsset, opts)])))"

fun push_matches ::
  "(string \<Rightarrow> bool \<Rightarrow> error option) \<Rightarrow> string \<Rightarrow> (string \<Rightarrow> bool) \<Rightarrow> string \<Rightarrow> bool \<Rightarrow>
     string list \<Rightarrow> (string \<times> bool) list \<Rightarrow> (string \<times> bool) list" where
  "push_matches push indexName regex prefixURL opts [] pushed = pushed"
| "push_matches push indexName regex prefixURL opts (indexAsset # names) pushed =
     (if strings_HasSuffix (''/'' @ indexAsset) indexName
      then push_matches push indexName regex prefixURL opts names pushed
      else if regex indexAsset
      then (let target = path_Join prefixURL indexAsset
            in case push target opts of
                 Some err \<Rightarrow> pushed @ [(target, opts)]
               | None \<Rightarrow>
                   push_matches push indexName regex prefixURL opts names
                     (pushed @ [(target, opts)]))
      else push_matches push indexName regex prefixURL opts names pushed)"

definition push_stage ::
  "nat \<Rightarrow> collaborators \<Rightarrow> http_FileSystem \<Rightarrow> Options \<Rightarrow> request \<Rightarrow> string \<Rightarrow> string \<Rightarrow> bool \<Rightarrow>
     (error + (string \<times> bool) list) option" where
  "push_stage fuel ext fs options r name encoding indexFound =
     (case Pusher ext of
        None \<Rightarrow> Some (Inr [])
      | Some push \<Rightarrow>
          if (PushTargets options \<noteq> [] \<or> PushTargetsRegexp options \<noteq> []) \<and> indexFound
             \<and> \<not> Enable (Attachments_opts options)
          then
            (let opts = (encoding \<noteq> []);
                 literal =
                   (case map_of (PushTargets options) (URL_Path r) of
                      Some indexAssets \<Rightarrow> push_targets push (RequestURI r) opts indexAssets []
                    | None \<Rightarrow> Inr ([], True))
             in case literal of
                  Inl err \<Rightarrow> Some (Inl err)
                | Inr (pushed, _) \<Rightarrow>
                    (case map_of (PushTargetsRegexp options) (URL_Path r) of
                       None \<Rightarrow> Some (Inr pushed)
                     | Some regex \<Rightarrow>
                         (let prefixURL0 = strings_TrimSuffix (RequestURI r) name;
                              prefixURL = (if prefixURL0 = [] then ''/'' else prefixURL0)
                          in case findNames fuel fs name of
                               None \<Rightarrow> None
                             | Some (Inl err) \<Rightarrow> Some (Inr pushed)
                             | Some (Inr names) \<Rightarrow>
                                 Some (Inr (push_matches push (IndexName options) regex
                                              prefixURL opts names pushed)))))
          else Some (Inr []))"

text \<open>
  Lines 154 to 268: the entry is a file. \<open>None\<close> is a request that does not return
  (the walk of \<open>findNames\<close> ran out of fuel), \<open>Inl\<close> a panic.
\<close>

definition serve_file ::
  "nat \<Rightarrow> collaborators \<Rightarrow> http_FileSystem \<Rightarrow> Options \<Rightarrow> response \<Rightarrow> request \<Rightarrow> string \<Rightarrow>
     http_File \<Rightarrow> os_FileInfo \<Rightarrow> bool \<Rightarrow> (error + outcome) option" where
  "serve_file fuel ext fs options w r name f info indexFound =
     (if IndexName options \<noteq> [] \<and> strings_HasSuffix name (IndexName options)
      then Some (Inr (finished (localRedirect w r ''./'')))
      else
        (case (case Allow options of
                 Some allow \<Rightarrow> allow w r name
               | None \<Rightarrow> (w, True)) of
           (w1, allowed) \<Rightarrow>
             if \<not> allowed then Some (Inr (finished w1))
             else
               (case attachment_stage options w1 f info indexFound of
                  (content, w2) \<Rightarrow>
                    (case encoding_stage ext options w2 r f of
                       (encoding, w3, compressing) \<Rightarrow>
                         (case push_stage fuel ext fs options r name encoding indexFound of
                            None \<Rightarrow> None
                          | Some (Inl err) \<Rightarrow> Some (Inl err)
                          | Some (Inr pushed) \<Rightarrow>
                              Some (Inr \<lparr>out_w = w3, out_compressing = compressing,
                                         out_pushes = pushed,
                                         out_served =
                                           Some \<lparr>sc_w = w3, sc_name = Name info,
                                                 sc_modtime = ModTime info,
                                                 sc_content = content\<rparr>\<rparr>))))))"

text \<open>
  Lines 98 to 130: the entry a request resolves to, or the error of \<open>open\<close> or
  \<open>Stat\<close>, which the handler answers with 404.
\<close>

definition resolve ::
  "http_FileSystem \<Rightarrow> Options \<Rightarrow> string \<Rightarrow> request \<Rightarrow>
     (error + http_File \<times> os_FileInfo \<times> bool) option" where
  "resolve fs options name r =
     (case handler_open fs name r of
        None \<Rightarrow> None
      | Some (Inl err) \<Rightarrow> Some (Inl err)
      | Some (Inr f) \<Rightarrow>
          (case Stat f of
             Inl err \<Rightarrow> Some (Inl err)
           | Inr info \<Rightarrow>
               (case index_substitution fs options name r f info of
                  None \<Rightarrow> None
                | Some resolved \<Rightarrow> Some (Inr resolved))))"

text \<open>The handler (lines 97 to 269); \<open>options\<close> are the options as \<open>FileServer\<close> set them up.\<close>

definition handler ::
  "nat \<Rightarrow> collaborators \<Rightarrow> http_FileSystem \<Rightarrow> Options \<Rightarrow> response \<Rightarrow> request \<Rightarrow>
     (error + outcome) option" where
  "handler fuel ext fs options w r0 =
     (let name = prefix (URL_Path r0) ''/'';
          r = r0\<lparr>URL_Path := name\<rparr>
      in case resolve fs options name r of
           None \<Rightarrow> None
         | Some (Inl err) \<Rightarrow> Some (Inr (finished (WriteHeader w StatusNotFound)))
         | Some (Inr (f, info, indexFound)) \<Rightarrow>
             if IsDir info
             then (case serve_directory ext options w r f info of
                     Inl err \<Rightarrow> Some (Inl err)
                   | Inr w1 \<Rightarrow> Some (Inr (finished w1)))
             else serve_file fuel ext fs options w r name f info indexFound)"

definition FileServer_options :: "collaborators \<Rightarrow> Options \<Rightarrow> Options" where
  \<comment> \<open>lines 73 to 87: what \<open>FileServer\<close> does to the options before it makes the handler\<close>
  "FileServer_options ext options =
     (let options1 = (if IndexName options \<noteq> []
                      then options\<lparr>IndexName := prefix (IndexName options) ''/''\<rparr>
                      else options);
          options2 = (if ShowList options1 \<and> DirList options1 = None
                      then options1\<lparr>DirList := Some (default_DirList ext)\<rparr>
                      else options1)
      in options2\<lparr>PushTargets :=
           map (\<lambda>(path, filenames). (path, map (filepath_ToSlash ext) filenames))
             (PushTargets options2)\<rparr>)"

definition FileServer ::
  "nat \<Rightarrow> collaborators \<Rightarrow> http_FileSystem \<Rightarrow> Options \<Rightarrow> response \<Rightarrow> request \<Rightarrow>
     (error + outcome) option" where
  "FileServer fuel ext fs options = handler fuel ext fs (FileServer_options ext options)"

section \<open>A provider and a codec registry for the examples\<close>

text \<open>
  The provider holds the two files \<open>/a/b.txt\<close> (three bytes) and \<open>/a/c/d.txt\<close>
  (two bytes). The registry knows \<open>gzip\<close> and \<open>br\<close> and rejects every other name;
  its codecs put a tag in front of the contents.
\<close>

definition tree_dir :: "string \<Rightarrow> string list \<Rightarrow> provider_file" where
  "tree_dir nm entries =
     \<lparr>pf_Stat = Inr \<lparr>Name = nm, Size = 4096, Mode = ModeDir + 0x1ED, ModTime = 1000,
                     IsDir = True\<rparr>,
      pf_Readdir =
        Inr (map (\<lambda>e. \<lparr>Name = e, Size = 0, Mode = 0x1A4, ModTime = 1000, IsDir = False\<rparr>)
               entries),
      pf_ReadAll = Inl (ExternalError ''is a directory'')\<rparr>"

definition tree_file :: "string \<Rightarrow> bytes \<Rightarrow> provider_file" where
  "tree_file nm contents =
     \<lparr>pf_Stat = Inr \<lparr>Name = nm, Size = int (length contents), Mode = 0x1A4, ModTime = 2000,
                     IsDir = False\<rparr>,
      pf_Readdir = Inl (ExternalError ''not a directory''),
      pf_ReadAll = Inr contents\<rparr>"

definition tree_Open :: "string \<Rightarrow> (error + http_File) option" where
  "tree_Open name =
     Some (if name = ''/'' then Inr (providerFile (tree_dir ''/'' [''a'']))
           else if name = ''/a'' then Inr (providerFile (tree_dir ''a'' [''b.txt'', ''c'']))
           else if name = ''/a/b.txt'' then Inr (providerFile (tree_file ''b.txt'' [1, 2, 3]))
           else if name = ''/a/c'' then Inr (providerFile (tree_dir ''c'' [''d.txt'']))
           else if name = ''/a/c/d.txt'' then Inr (providerFile (tree_file ''d.txt'' [4, 5]))
           else Inl ErrNotExist)"

definition tree_fs :: http_FileSystem where
  "tree_fs = \<lparr>Open = tree_Open, Ropen = None\<rparr>"

definition demo_NewWriter :: "string \<Rightarrow> bytes \<Rightarrow> error + bytes" where
  "demo_NewWriter enc contents =
     (if enc = ''gzip'' then Inr (31 # 139 # contents)
      else if enc = ''br'' then Inr (11 # contents)
      else Inl (ExternalError ''compression not supported''))"

definition demo_options :: CacheOptions where
  "demo_options =
     \<lparr>CompressMinSize = 3, CompressIgnore = Some (\<lambda>name. strings_HasSuffix name ''.jpg''),
      Encodings = [''gzip'', ''brotli'']\<rparr>"

text \<open>
  The cache built over the provider of the example, and its entries for the two files.
  The walk needs a fuel of five for a tree of this depth.
\<close>

definition empty_cacheFS :: cacheFS where
  "empty_cacheFS = \<lparr>c_n = 0, c_dirs = Map.empty, c_files = Map.empty, c_algs = []\<rparr>"

definition demo_cache :: cacheFS where
  "demo_cache =
     (case Cache 5 demo_NewWriter tree_fs demo_options of
        Some (Inr c) \<Rightarrow> c
      | _ \<Rightarrow> empty_cacheFS)"

definition demo_b :: file_struct where
  "demo_b = the (c_files demo_cache ''/a/b.txt'')"

definition demo_d :: file_struct where
  "demo_d = the (c_files demo_cache ''/a/c/d.txt'')"

text \<open>
  A second provider, a site with an index file of five bytes and a picture of four
  bytes that the ignore pattern of the example matches.
\<close>

definition site_Open :: "string \<Rightarrow> (error + http_File) option" where
  "site_Open name =
     Some (if name = ''/'' then Inr (providerFile (tree_dir ''/'' [''index.html'', ''logo.jpg'']))
           else if name = ''/index.html''
           then Inr (providerFile (tree_file ''index.html'' [60, 112, 62, 104, 105]))
           else if name = ''/logo.jpg''
           then Inr (providerFile (tree_file ''logo.jpg'' [255, 216, 255, 224]))
           else Inl ErrNotExist)"

definition site_fs :: http_FileSystem where
  "site_fs = \<lparr>Open = site_Open, Ropen = None\<rparr>"

definition site_cache :: cacheFS where
  "site_cache =
     (case Cache 5 demo_NewWriter site_fs demo_options of
        Some (Inr c) \<Rightarrow> c
      | _ \<Rightarrow> empty_cacheFS)"

definition site_logo :: file_struct where
  "site_logo = the (c_files site_cache ''/logo.jpg'')"

text \<open>
  A negotiation that takes the first value of \<open>Accept-Encoding\<close> when it is among the
  offers, and GET requests with a target, a raw query and that header.
\<close>

definition demo_GetEncoding :: "request \<Rightarrow> string list \<Rightarrow> string" where
  "demo_GetEncoding r offers =
     (let accepted = Header_Get (Header r) ''Accept-Encoding''
      in if accepted \<in> set offers then accepted else [])"

definition demo_request :: "string \<Rightarrow> string \<Rightarrow> string \<Rightarrow> request" where
  "demo_request target query accepted =
     \<lparr>Method = ''GET'', URL_Path = target, URL_RawQuery = query, RequestURI = target,
      Header = (\<lambda>key. if key = ''Accept-Encoding'' \<and> accepted \<noteq> [] then [accepted] else [])\<rparr>"

section \<open>Properties of the sort\<close>






section \<open>Properties of the builder's loops\<close>

lemma compress_loop_other:
  "compress_loop cw contents As algs = Inr algs' \<Longrightarrow> k \<notin> variant_key ` set As \<Longrightarrow>
   algs' k = algs k"
  by (induction As arbitrary: algs) (auto simp: Let_def split: sum.splits)

lemma compress_loop_key:
  "compress_loop cw contents As algs = Inr algs' \<Longrightarrow> k \<in> variant_key ` set As \<Longrightarrow>
   \<exists>dest. cw (strings_ToLower k) contents = Inr dest \<and> algs' k = Some dest"
proof (induction As arbitrary: algs)
  case Nil
  then show ?case by simp
next
  case (Cons a As)
  from Cons.prems(1) obtain dest where
    d: "cw (strings_ToLower (variant_key a)) contents = Inr dest" and
    rest: "compress_loop cw contents As (algs(variant_key a \<mapsto> dest)) = Inr algs'"
    by (auto simp: Let_def split: sum.splits)
  show ?case
  proof (cases "k \<in> variant_key ` set As")
    case True
    with Cons.IH [OF rest] show ?thesis by blast
  next
    case False
    with Cons.prems(2) have k: "k = variant_key a" by auto
    from compress_loop_other [OF rest False] k d show ?thesis by simp
  qed
qed

lemma cacheFiles_entry_fields:
  "cacheFiles_entry cw As m ig name finfo contents = Inr f \<Longrightarrow>
   f_info f = fileInfo_iface (newFileInfo (path_Base name) (Mode finfo) (ModTime finfo))
   \<and> f_name f = name \<and> f_alg f = [] \<and> f_ReadSeeker f = None"
  by (auto simp: cacheFiles_entry_def Let_def newFile_def split: if_splits sum.splits)

lemma cacheFiles_entry_skipped:
  "cacheFiles_entry cw As m ig name finfo contents = Inr f \<Longrightarrow>
   (m > 0 \<and> m > int (length contents)) \<or> ignore_matches ig name \<Longrightarrow>
   f_algs f = [[] \<mapsto> contents]"
  by (auto simp: cacheFiles_entry_def Let_def newFile_def split: if_splits sum.splits)

lemma cacheFiles_entry_compressed:
  "cacheFiles_entry cw As m ig name finfo contents = Inr f \<Longrightarrow>
   \<not> (m > 0 \<and> m > int (length contents)) \<Longrightarrow> \<not> ignore_matches ig name \<Longrightarrow>
   compress_loop cw contents As [[] \<mapsto> contents] = Inr (f_algs f)"
  by (auto simp: cacheFiles_entry_def Let_def newFile_def split: if_splits sum.splits)

lemma cacheFiles_loop_entries:
  "cacheFiles_loop cw fs names As m ig list = Some (Inr list') \<Longrightarrow> list' name = Some f \<Longrightarrow>
   list name = Some f \<or>
   (name \<in> set names \<and>
    (\<exists>h finfo contents. Open fs name = Some (Inr h) \<and> Stat h = Inr finfo \<and>
       ReadAll h = Inr contents \<and>
       cacheFiles_entry cw As m ig name finfo contents = Inr f))"
proof (induction names arbitrary: list)
  case Nil
  then show ?case by simp
next
  case (Cons n names)
  from Cons.prems(1) obtain h finfo contents entry where
    o: "Open fs n = Some (Inr h)" and st: "Stat h = Inr finfo" and
    ra: "ReadAll h = Inr contents" and
    e: "cacheFiles_entry cw As m ig n finfo contents = Inr entry" and
    rest: "cacheFiles_loop cw fs names As m ig (list(n \<mapsto> entry)) = Some (Inr list')"
    by (auto split: option.splits sum.splits)
  from Cons.IH [OF rest Cons.prems(2)] show ?case
  proof
    assume "(list(n \<mapsto> entry)) name = Some f"
    then show ?thesis using o st ra e by (auto split: if_splits)
  next
    assume "name \<in> set names \<and>
      (\<exists>h finfo contents. Open fs name = Some (Inr h) \<and> Stat h = Inr finfo \<and>
         ReadAll h = Inr contents \<and> cacheFiles_entry cw As m ig name finfo contents = Inr f)"
    then show ?thesis by auto
  qed
qed

lemma cacheFiles_entries:
  assumes "cacheFiles cw fs names As m ig = Some (Inr list)" and "list name = Some f"
  shows "name \<in> set names \<and>
    (\<exists>h finfo contents. Open fs name = Some (Inr h) \<and> Stat h = Inr finfo \<and>
       ReadAll h = Inr contents \<and> cacheFiles_entry cw As m ig name finfo contents = Inr f)"
  using cacheFiles_loop_entries [of cw fs names As m ig Map.empty list name f] assms
  by (simp add: cacheFiles_def)

lemma Cache_parts:
  assumes "Cache fuel cw fs options = Some (Inr c)"
  shows "\<exists>names. findDirs fs names = Some (Inr (c_dirs c)) \<and>
           cacheFiles cw fs names (Encodings options) (CompressMinSize options)
             (CompressIgnore options) = Some (Inr (c_files c)) \<and>
           c_algs c = Encodings options \<and> c_n c = length names"
  using assms by (auto simp: Cache_def Let_def split: option.splits sum.splits)

section \<open>Properties of the cached file system\<close>

lemma file_Get_present:
  "f_algs f alg = Some contents \<Longrightarrow>
   file_Get f alg = Some (Inr (cachedFile
     \<lparr>f_ReadSeeker = Some contents, f_algs = Map.empty, f_alg = alg,
      f_name = f_name f, f_baseName = f_baseName f, f_info = f_info f\<rparr>))"
  by (subst file_Get.simps) simp

lemma file_Get_absent: "f_algs f alg = None \<Longrightarrow> file_Get f alg = file_Get f []"
  by (subst file_Get.simps) simp

lemma file_Get_total:
  assumes "f_algs f [] = Some orig"
  shows "\<exists>ff. file_Get f alg = Some (Inr (cachedFile ff)) \<and> f_info ff = f_info f \<and>
           f_name ff = f_name f \<and> f_baseName ff = f_baseName f \<and>
           (case f_algs f alg of
              Some contents \<Rightarrow> f_alg ff = alg \<and> f_ReadSeeker ff = Some contents
            | None \<Rightarrow> f_alg ff = [] \<and> f_ReadSeeker ff = Some orig)"
proof (cases "f_algs f alg")
  case None
  then show ?thesis using assms by (simp add: file_Get_absent file_Get_present)
next
  case (Some contents)
  then show ?thesis by (simp add: file_Get_present)
qed

lemma newDir_Size: "Size (d_FileInfo (newDir fi fullname)) = 0"
  by (simp add: newDir_def Let_def fileInfo_iface_def fileInfo_Size_def)

lemma append_child_Size:
  "\<forall>k d. dirs k = Some d \<longrightarrow> Size (d_FileInfo d) = 0 \<Longrightarrow>
   \<forall>k d. append_child dirs key ch k = Some d \<longrightarrow> Size (d_FileInfo d) = 0"
  by (auto simp: append_child_def split: option.splits if_splits)

lemma findDirs_step_Size:
  assumes ok: "\<forall>k d. dirs k = Some d \<longrightarrow> Size (d_FileInfo d) = 0"
  shows "\<forall>k d. findDirs_step finfo name dirs k = Some d \<longrightarrow> Size (d_FileInfo d) = 0"
proof -
  let ?P = "\<lambda>m. \<forall>k d. m k = Some d \<longrightarrow> Size (d_FileInfo d) = 0"
  have link: "?P (case m pn of Some parent \<Rightarrow> append_child m pn x | None \<Rightarrow> m)"
    if "?P m" for m :: "string \<rightharpoonup> dir" and pn x
    using that append_child_Size [of m pn x] by (cases "m pn") simp_all
  have fresh: "?P (dirs(key \<mapsto> newDir fi key))" for key fi
    using ok by (simp add: newDir_Size)
  show ?thesis
  proof (cases "dirs (path_Dir name)")
    case None
    then show ?thesis
      unfolding findDirs_step_def Let_def
      by (simp del: fun_upd_apply) (intro append_child_Size link fresh)
  next
    case (Some d0)
    then show ?thesis
      unfolding findDirs_step_def Let_def
      by (simp del: fun_upd_apply) (intro append_child_Size link ok)
  qed
qed

lemma findDirs_loop_Size:
  "findDirs_loop fs names dirs = Some (Inr dirs') \<Longrightarrow>
   \<forall>k d. dirs k = Some d \<longrightarrow> Size (d_FileInfo d) = 0 \<Longrightarrow>
   \<forall>k d. dirs' k = Some d \<longrightarrow> Size (d_FileInfo d) = 0"
proof (induction names arbitrary: dirs)
  case Nil
  then show ?case by simp
next
  case (Cons n names)
  from Cons.prems(1) obtain finfo where
    rest: "findDirs_loop fs names (findDirs_step finfo n dirs) = Some (Inr dirs')"
    by (auto split: option.splits sum.splits)
  show ?case
    by (rule Cons.IH [OF rest]) (rule findDirs_step_Size [OF Cons.prems(2)])
qed

lemma findDirs_Size:
  "findDirs fs names = Some (Inr dirs) \<Longrightarrow> dirs k = Some d \<Longrightarrow> Size (d_FileInfo d) = 0"
  using findDirs_loop_Size [of fs names Map.empty dirs] by (simp add: findDirs_def)

lemma cacheFiles_entry_original_key:
  assumes "cacheFiles_entry cw As m ig name finfo contents = Inr f"
  shows "\<exists>orig. f_algs f [] = Some orig"
proof (cases "(m > 0 \<and> m > int (length contents)) \<or> ignore_matches ig name")
  case True
  with cacheFiles_entry_skipped [OF assms] show ?thesis by simp
next
  case False
  then have loop: "compress_loop cw contents As [[] \<mapsto> contents] = Inr (f_algs f)"
    using cacheFiles_entry_compressed [OF assms] by blast
  show ?thesis
  proof (cases "[] \<in> variant_key ` set As")
    case True
    from compress_loop_key [OF loop True] show ?thesis by blast
  next
    case False
    from compress_loop_other [OF loop False] show ?thesis by simp
  qed
qed

lemma cacheFiles_entry_Size:
  "cacheFiles_entry cw As m ig name finfo contents = Inr f \<Longrightarrow> Size (f_info f) = 0"
  by (drule cacheFiles_entry_fields) (simp add: fileInfo_iface_def fileInfo_Size_def)

lemma Cache_file_entry:
  assumes build: "Cache fuel cw fs options = Some (Inr c)"
      and entry: "c_files c name = Some f"
  shows "\<exists>h finfo contents. Open fs name = Some (Inr h) \<and> Stat h = Inr finfo \<and>
           ReadAll h = Inr contents \<and>
           cacheFiles_entry cw (Encodings options) (CompressMinSize options)
             (CompressIgnore options) name finfo contents = Inr f"
proof -
  from Cache_parts [OF build] obtain names where
    "cacheFiles cw fs names (Encodings options) (CompressMinSize options)
       (CompressIgnore options) = Some (Inr (c_files c))"
    by blast
  from cacheFiles_entries [OF this entry] show ?thesis by blast
qed

section \<open>Properties of the request-serving pipeline\<close>

lemma FileServer_options_IndexName:
  "IndexName (FileServer_options ext options) =
     (if IndexName options \<noteq> [] then prefix (IndexName options) ''/'' else [])"
  by (simp add: FileServer_options_def Let_def)

lemma FileServer_options_Compress:
  "Compress (FileServer_options ext options) = Compress options"
  by (simp add: FileServer_options_def Let_def)

lemma prefix_not_empty: "prefix s ''/'' \<noteq> []"
  by (auto simp: prefix_def strings_HasPrefix_def)

lemma localRedirect_effect:
  "w_WriteHeader (localRedirect w r p) = w_WriteHeader w @ [StatusMovedPermanently] \<and>
   w_Header (localRedirect w r p) ''Location'' =
     [if URL_RawQuery r \<noteq> [] then p @ ''?'' @ URL_RawQuery r else p] \<and>
   w_body (localRedirect w r p) = w_body w"
  by (simp add: localRedirect_def Let_def WriteHeader_def Header_Set_def)

lemma encoding_stage_compressing:
  "encoding_stage ext options w r f = (enc, w', True) \<Longrightarrow>
   \<not> snd (GetEncoding (Some f)) \<and> Compress options"
  by (auto simp: encoding_stage_def split: prod.splits if_splits sum.splits)

lemma encoding_stage_header:
  "encoding_stage ext options w r f = (enc, w', c) \<Longrightarrow> GetEncoding (Some f) = (e, True) \<Longrightarrow>
   \<not> c \<and> enc = e \<and> (e \<noteq> [] \<longrightarrow> w_Header w' ''Content-Encoding'' = [e])"
  by (auto simp: encoding_stage_def compress_AddCompressHeaders_def Header_Set_def
      split: prod.splits if_splits sum.splits)

lemma attachment_stage_file:
  "attachment_stage options w f info indexFound = (content, w') \<Longrightarrow> content_file content = f"
  by (auto simp: attachment_stage_def Let_def split: if_splits)

section \<open>Facts about the examples\<close>

lemma demo_build: "Cache 5 demo_NewWriter tree_fs demo_options = Some (Inr demo_cache)"
proof -
  have "case Cache 5 demo_NewWriter tree_fs demo_options of
          Some (Inr c) \<Rightarrow> True | _ \<Rightarrow> False"
    by code_simp
  then show ?thesis
    by (simp add: demo_cache_def split: option.splits sum.splits)
qed

lemma site_build: "Cache 5 demo_NewWriter site_fs demo_options = Some (Inr site_cache)"
proof -
  have "case Cache 5 demo_NewWriter site_fs demo_options of
          Some (Inr c) \<Rightarrow> True | _ \<Rightarrow> False"
    by code_simp
  then show ?thesis
    by (simp add: site_cache_def split: option.splits sum.splits)
qed

lemma demo_entry_b: "c_files demo_cache ''/a/b.txt'' = Some demo_b"
proof -
  have "case c_files demo_cache ''/a/b.txt'' of Some f \<Rightarrow> True | None \<Rightarrow> False"
    by code_simp
  then show ?thesis
    by (simp add: demo_b_def split: option.splits)
qed

lemma demo_entry_d: "c_files demo_cache ''/a/c/d.txt'' = Some demo_d"
proof -
  have "case c_files demo_cache ''/a/c/d.txt'' of Some f \<Rightarrow> True | None \<Rightarrow> False"
    by code_simp
  then show ?thesis
    by (simp add: demo_d_def split: option.splits)
qed

lemma site_entry_logo: "c_files site_cache ''/logo.jpg'' = Some site_logo"
proof -
  have "case c_files site_cache ''/logo.jpg'' of Some f \<Rightarrow> True | None \<Rightarrow> False"
    by code_simp
  then show ?thesis
    by (simp add: site_logo_def split: option.splits)
qed

lemma tree_read_b:
  "Open tree_fs ''/a/b.txt'' = Some (Inr (providerFile (tree_file ''b.txt'' [1, 2, 3]))) \<and>
   ReadAll (providerFile (tree_file ''b.txt'' [1, 2, 3])) = Inr [1, 2, 3]"
  by (simp add: tree_fs_def tree_Open_def tree_file_def)

lemma tree_read_d:
  "Open tree_fs ''/a/c/d.txt'' = Some (Inr (providerFile (tree_file ''d.txt'' [4, 5]))) \<and>
   ReadAll (providerFile (tree_file ''d.txt'' [4, 5])) = Inr [4, 5]"
  by (simp add: tree_fs_def tree_Open_def tree_file_def)

lemma site_read_logo:
  "Open site_fs ''/logo.jpg'' = Some (Inr (providerFile (tree_file ''logo.jpg'' [255, 216, 255, 224]))) \<and>
   ReadAll (providerFile (tree_file ''logo.jpg'' [255, 216, 255, 224])) = Inr [255, 216, 255, 224]"
  by (simp add: site_fs_def site_Open_def tree_file_def)

lemma demo_registry:
  "[] \<notin> set (Encodings demo_options) \<or> (\<forall>bs. isl (demo_NewWriter [] bs))"
  by (simp add: demo_options_def)

lemma demo_b_gzip: "f_algs demo_b ''gzip'' = Some [31, 139, 1, 2, 3]"
  by code_simp

lemma demo_b_br: "f_algs demo_b ''br'' = Some [11, 1, 2, 3]"
  by code_simp

lemma demo_options_fields:
  "CompressMinSize demo_options = 3 \<and>
   CompressIgnore demo_options = Some (\<lambda>name. strings_HasSuffix name ''.jpg'') \<and>
   Encodings demo_options = [''gzip'', ''brotli'']"
  by (simp add: demo_options_def)

lemma jpg_suffix:
  "\<not> strings_HasSuffix ''/a/b.txt'' ''.jpg'' \<and> \<not> strings_HasSuffix ''/a/c/d.txt'' ''.jpg'' \<and>
   strings_HasSuffix ''/logo.jpg'' ''.jpg''"
  by (simp add: strings_HasSuffix_def)

lemma demo_index_b:
  "rooted_name ''/a/b.txt'' = ''/a/b.txt'' \<and> c_dirs demo_cache ''/a/b.txt'' = None"
  by code_simp



lemma demo_b_orig: "f_algs demo_b [] = Some [1, 2, 3]"
  by code_simp

lemma demo_open_b:
  "case cacheFS_Open demo_cache ''/a/b.txt'' of
     Some (Inr h) \<Rightarrow> ReadAll h = Inr [1, 2, 3]
   | _ \<Rightarrow> False"
  using demo_index_b demo_entry_b demo_b_orig
  by (simp add: cacheFS_Open_def Let_def file_Get_present)

lemma demo_open_a:
  "case cacheFS_Open demo_cache ''/a'' of
     Some (Inr h) \<Rightarrow> map_sum id (map Name) (Readdir h) = Inr [''b.txt'', ''c'']
   | _ \<Rightarrow> False"
  by code_simp

lemma demo_negotiated:
  "demo_GetEncoding (demo_request ''/a/b.txt'' [] ''gzip'') (Encodings demo_options) = ''gzip'' \<and>
   demo_GetEncoding (demo_request ''/a/c/d.txt'' [] ''gzip'') (Encodings demo_options) = ''gzip'' \<and>
   demo_GetEncoding (demo_request ''/a/b.txt'' [] []) (Encodings demo_options) = []"
  by (simp add: demo_GetEncoding_def demo_request_def demo_options_def Header_Get_def)

lemma demo_algs: "c_algs demo_cache = Encodings demo_options"
  using Cache_parts [OF demo_build] by blast

lemma demo_ropen_b:
  "case cacheFS_Ropen demo_GetEncoding demo_cache ''/a/b.txt''
          (demo_request ''/a/b.txt'' [] ''gzip'') of
     Some (Inr h) \<Rightarrow> ReadAll h = Inr [31, 139, 1, 2, 3]
   | _ \<Rightarrow> False"
  using demo_index_b demo_entry_b demo_b_gzip demo_negotiated demo_algs
  by (simp add: cacheFS_Ropen_def Let_def file_Get_present)


section \<open>The claims\<close>

text \<open>
  C1. The cache is built over the provider that holds exactly \<open>/a/b.txt\<close> and
  \<open>/a/c/d.txt\<close>. The directory index maps \<open>/a\<close> to an entry with the children
  \<open>b.txt\<close> and \<open>c\<close>, and \<open>/a/c\<close> to an entry with the child \<open>d.txt\<close>. It has no
  entry for \<open>/\<close>: a directory that holds sub-directories only is never made, since
  \<open>findDirs\<close> makes the directory of each file and links it to a parent that is
  already there. Opening \<open>/\<close> on the cache fails with \<open>os.ErrNotExist\<close>, while the
  provider itself opens \<open>/\<close> and lists \<open>a\<close>.
\<close>

theorem root_directory_not_indexed:
  "(case Cache 5 demo_NewWriter tree_fs demo_options of
      Some (Inr c) \<Rightarrow>
        map_option (\<lambda>d. map Name (d_children d)) (c_dirs c ''/a'') = Some [''b.txt'', ''c''] \<and>
        map_option (\<lambda>d. map Name (d_children d)) (c_dirs c ''/a/c'') = Some [''d.txt''] \<and>
        c_dirs c ''/'' = None \<and>
        c_files c ''/'' = None \<and>
        (case cacheFS_Open c ''/'' of Some (Inl err) \<Rightarrow> err = ErrNotExist | _ \<Rightarrow> False)
    | _ \<Rightarrow> False) \<and>
   (case Open tree_fs ''/'' of
      Some (Inr h) \<Rightarrow> map_sum id (map Name) (Readdir h) = Inr [''a'']
    | _ \<Rightarrow> False)"
  by code_simp



text \<open>
  C3. \<open>checkIfModifiedSince(r, m)\<close> returns \<open>(false, nil)\<close>, the resource is unmodified,
  exactly when the method of \<open>r\<close> is GET or HEAD, \<open>r\<close> has a non-empty
  \<open>If-Modified-Since\<close> header, \<open>m\<close> is not the zero time, the header parses as a time
  \<open>t\<close>, and \<open>m\<close> in UTC is strictly before \<open>t\<close> plus one second. When the method is
  another one, the header is empty or \<open>m\<close> is zero, the result is \<open>(false, err)\<close> where
  \<open>err\<close> wraps \<open>errPreconditionFailed\<close>. When the header does not parse, the error
  returned is the error of the parser and \<open>errors.Is\<close> does not find
  \<open>errPreconditionFailed\<close> in it.
\<close>

theorem checkIfModifiedSince_cases:
  "(checkIfModifiedSince parse r m = (False, None)) =
     ((Method r = ''GET'' \<or> Method r = ''HEAD'') \<and>
      Header_Get (Header r) ''If-Modified-Since'' \<noteq> [] \<and> \<not> Time_IsZero m \<and>
      (\<exists>t. parse (Header_Get (Header r) ''If-Modified-Since'') = Inr t \<and>
           Time_Before (Time_UTC m) (Time_Add t Second)))
   \<and> ((Method r \<noteq> ''GET'' \<and> Method r \<noteq> ''HEAD'') \<or>
       Header_Get (Header r) ''If-Modified-Since'' = [] \<or> Time_IsZero m \<longrightarrow>
       (\<exists>msg. checkIfModifiedSince parse r m = (False, Some (Errorf msg errPreconditionFailed))) \<and>
       (\<forall>err. snd (checkIfModifiedSince parse r m) = Some err \<longrightarrow>
              errors_Is err errPreconditionFailed))
   \<and> ((Method r = ''GET'' \<or> Method r = ''HEAD'') \<and>
       Header_Get (Header r) ''If-Modified-Since'' \<noteq> [] \<and> \<not> Time_IsZero m \<longrightarrow>
       (\<forall>perr. parse (Header_Get (Header r) ''If-Modified-Since'') = Inl perr \<longrightarrow>
          checkIfModifiedSince parse r m = (False, Some (ParseTimeError perr)) \<and>
          \<not> errors_Is (ParseTimeError perr) errPreconditionFailed))"
  by (auto simp: checkIfModifiedSince_def Let_def split: sum.splits)

text \<open>
  C4. Every file entry made by the cache builder has the empty key in its variant
  map, and the bytes under it are the contents read from the provider. The bytes under
  every other key \<open>a\<close> of the map are the result of compressing those contents with the
  algorithm \<open>a\<close>: the builder asks the registry for the writer of the lower-cased
  name. Whether the compression was skipped for the file plays no part. The registry
  is taken not to know a codec of the empty name when the empty name is among the
  configured encodings, since such a codec would write its output over the original.
\<close>

theorem variant_map_invariant:
  assumes build: "Cache fuel cw fs options = Some (Inr c)"
      and entry: "c_files c name = Some f"
      and opened: "Open fs name = Some (Inr h)"
      and read: "ReadAll h = Inr contents"
      and registry: "[] \<notin> set (Encodings options) \<or> (\<forall>bs. isl (cw [] bs))"
  shows "f_algs f [] = Some contents \<and>
         (\<forall>a bs. a \<noteq> [] \<and> f_algs f a = Some bs \<longrightarrow>
                 cw (strings_ToLower a) contents = Inr bs)"
proof -
  from Cache_file_entry [OF build entry] opened read obtain finfo where
    e: "cacheFiles_entry cw (Encodings options) (CompressMinSize options)
          (CompressIgnore options) name finfo contents = Inr f"
    by auto
  show ?thesis
  proof (cases "(CompressMinSize options > 0 \<and> CompressMinSize options > int (length contents))
                 \<or> ignore_matches (CompressIgnore options) name")
    case True
    from cacheFiles_entry_skipped [OF e True] show ?thesis by (simp split: if_splits)
  next
    case False
    then have loop: "compress_loop cw contents (Encodings options) [[] \<mapsto> contents]
                       = Inr (f_algs f)"
      using cacheFiles_entry_compressed [OF e] by blast
    have keys: "cw (strings_ToLower a) contents = Inr bs" if "a \<noteq> []" "f_algs f a = Some bs" for a bs
    proof (cases "a \<in> variant_key ` set (Encodings options)")
      case True
      from compress_loop_key [OF loop True] that show ?thesis by auto
    next
      case False
      from compress_loop_other [OF loop False] that show ?thesis by simp
    qed
    have orig: "f_algs f [] = Some contents"
    proof (cases "[] \<in> variant_key ` set (Encodings options)")
      case True
      then have mem: "[] \<in> set (Encodings options)"
        by (auto simp: variant_key_def split: if_splits)
      from compress_loop_key [OF loop True] obtain dest where
        "cw (strings_ToLower []) contents = Inr dest" by blast
      moreover from registry mem have "isl (cw [] contents)" by blast
      ultimately show ?thesis by (simp add: strings_ToLower_def)
    next
      case False
      from compress_loop_other [OF loop False] show ?thesis by simp
    qed
    from orig keys show ?thesis by blast
  qed
qed
text \<open>
  In the cache of the example the entry of \<open>/a/b.txt\<close> holds the three bytes of the
  file under the empty key, and the bytes under \<open>gzip\<close> are what the registry's
  \<open>gzip\<close> writer makes of them.
\<close>

theorem variant_map_invariant_witness:
  "Cache 5 demo_NewWriter tree_fs demo_options = Some (Inr demo_cache) \<and>
   c_files demo_cache ''/a/b.txt'' = Some demo_b \<and>
   f_algs demo_b [] = Some [1, 2, 3] \<and>
   f_algs demo_b ''gzip'' = Some [31, 139, 1, 2, 3] \<and>
   demo_NewWriter (strings_ToLower ''gzip'') [1, 2, 3] = Inr [31, 139, 1, 2, 3]"
  using variant_map_invariant [OF demo_build demo_entry_b conjunct1 [OF tree_read_b]
      conjunct2 [OF tree_read_b] demo_registry]
    demo_build demo_entry_b demo_b_gzip
  by auto


text \<open>
  C6. The cache is built with a minimum size \<open>m > 0\<close> and an ignore pattern \<open>p\<close>. A
  file of exactly \<open>m\<close> bytes whose path \<open>p\<close> does not match has a compressed variant
  for every configured encoding (under the key of the encoding, \<open>br\<close> for
  \<open>brotli\<close>); a file of \<open>m - 1\<close> bytes has the uncompressed variant only; and a file
  whose path matches \<open>p\<close> has the uncompressed variant only, whatever its size.
\<close>

theorem compression_thresholds:
  assumes build: "Cache fuel cw fs options = Some (Inr c)"
      and minsize: "CompressMinSize options = m" "0 < m"
      and ignore: "CompressIgnore options = Some p"
      and entry: "c_files c name = Some f"
      and opened: "Open fs name = Some (Inr h)"
      and read: "ReadAll h = Inr contents"
  shows "(int (length contents) = m \<and> \<not> p name \<longrightarrow>
            (\<forall>alg \<in> set (Encodings options).
               \<exists>bs. f_algs f (variant_key alg) = Some bs \<and>
                    cw (strings_ToLower (variant_key alg)) contents = Inr bs))
       \<and> (int (length contents) = m - 1 \<longrightarrow> f_algs f = [[] \<mapsto> contents])
       \<and> (p name \<longrightarrow> f_algs f = [[] \<mapsto> contents])"
proof -
  from Cache_file_entry [OF build entry] opened read obtain finfo where
    e: "cacheFiles_entry cw (Encodings options) m (Some p) name finfo contents = Inr f"
    using minsize ignore by auto
  have at_min: "\<exists>bs. f_algs f (variant_key alg) = Some bs \<and>
                  cw (strings_ToLower (variant_key alg)) contents = Inr bs"
    if "int (length contents) = m" "\<not> p name" "alg \<in> set (Encodings options)" for alg
  proof -
    from that have "compress_loop cw contents (Encodings options) [[] \<mapsto> contents] = Inr (f_algs f)"
      using cacheFiles_entry_compressed [OF e] by (simp add: ignore_matches_def)
    from compress_loop_key [OF this, of "variant_key alg"] that(3) show ?thesis by blast
  qed
  have below: "f_algs f = [[] \<mapsto> contents]" if "int (length contents) = m - 1"
    using cacheFiles_entry_skipped [OF e] that minsize by simp
  have ignored: "f_algs f = [[] \<mapsto> contents]" if "p name"
    using cacheFiles_entry_skipped [OF e] that by (simp add: ignore_matches_def)
  from at_min below ignored show ?thesis by blast
qed
text \<open>
  The example has the minimum size 3 and ignores \<open>.jpg\<close>: \<open>/a/b.txt\<close> (three bytes)
  has both compressed variants, \<open>/a/c/d.txt\<close> (two bytes) and \<open>/logo.jpg\<close> (four
  bytes, ignored) have the uncompressed one only.
\<close>

theorem compression_thresholds_witness:
  "(\<exists>bs. f_algs demo_b ''gzip'' = Some bs \<and> demo_NewWriter ''gzip'' [1, 2, 3] = Inr bs) \<and>
   (\<exists>bs. f_algs demo_b ''br'' = Some bs \<and> demo_NewWriter ''br'' [1, 2, 3] = Inr bs) \<and>
   f_algs demo_d = [[] \<mapsto> [4, 5]] \<and>
   f_algs site_logo = [[] \<mapsto> [255, 216, 255, 224]]"
proof -
  note f = demo_options_fields
  have three: "(0::int) < 3" by simp
  note b = compression_thresholds [OF demo_build conjunct1 [OF f] three
      conjunct1 [OF conjunct2 [OF f]] demo_entry_b conjunct1 [OF tree_read_b]
      conjunct2 [OF tree_read_b]]
  note d = compression_thresholds [OF demo_build conjunct1 [OF f] three
      conjunct1 [OF conjunct2 [OF f]] demo_entry_d conjunct1 [OF tree_read_d]
      conjunct2 [OF tree_read_d]]
  note l = compression_thresholds [OF site_build conjunct1 [OF f] three
      conjunct1 [OF conjunct2 [OF f]] site_entry_logo conjunct1 [OF site_read_logo]
      conjunct2 [OF site_read_logo]]
  from b jpg_suffix f have
    "\<forall>alg \<in> {''gzip'', ''brotli''}. \<exists>bs. f_algs demo_b (variant_key alg) = Some bs \<and>
        demo_NewWriter (strings_ToLower (variant_key alg)) [1, 2, 3] = Inr bs"
    by simp
  then have 1: "(\<exists>bs. f_algs demo_b ''gzip'' = Some bs \<and> demo_NewWriter ''gzip'' [1, 2, 3] = Inr bs) \<and>
   (\<exists>bs. f_algs demo_b ''br'' = Some bs \<and> demo_NewWriter ''br'' [1, 2, 3] = Inr bs)"
    by (simp add: variant_key_def strings_ToLower_def lower_char_def Let_def)
  from d have 2: "f_algs demo_d = [[] \<mapsto> [4, 5]]" by simp
  from l jpg_suffix have 3: "f_algs site_logo = [[] \<mapsto> [255, 216, 255, 224]]" by simp
  from 1 2 3 show ?thesis by blast
qed

text \<open>
  C7. The index name is configured, the request resolves to a file, and its path
  ends with the index name (as \<open>FileServer\<close> normalised it, with a leading slash).
  Then the handler answers with the status 301 and the \<open>Location\<close> header \<open>./\<close>, the
  relative reference to the directory of the requested path, which is the path
  without the index file; the raw query of the request follows it after a \<open>?\<close> when it
  is not empty. The body is not written, \<open>http.ServeContent\<close> is not called, nothing
  is pushed and the writer is not wrapped.
\<close>

theorem index_request_redirected:
  assumes configured: "IndexName options \<noteq> []"
      and name: "name = prefix (URL_Path r) ''/''"
      and resolved: "resolve fs (FileServer_options ext options) name (r\<lparr>URL_Path := name\<rparr>)
                       = Some (Inr (f, info, indexFound))"
      and regular: "\<not> IsDir info"
      and suffix: "strings_HasSuffix name (prefix (IndexName options) ''/'')"
  shows "\<exists>out. FileServer fuel ext fs options w r = Some (Inr out) \<and>
           w_WriteHeader (out_w out) = w_WriteHeader w @ [301] \<and>
           w_Header (out_w out) ''Location'' =
             [if URL_RawQuery r \<noteq> [] then ''./'' @ ''?'' @ URL_RawQuery r else ''./''] \<and>
           w_body (out_w out) = w_body w \<and>
           out_served out = None \<and> \<not> out_compressing out \<and> out_pushes out = []"
proof -
  have "FileServer fuel ext fs options w r =
          Some (Inr (finished (localRedirect w (r\<lparr>URL_Path := name\<rparr>) ''./'')))"
    using configured resolved regular suffix
    by (simp add: FileServer_def handler_def Let_def name [symmetric] serve_file_def
        FileServer_options_IndexName prefix_not_empty)
  then show ?thesis
    using localRedirect_effect [of w "r\<lparr>URL_Path := name\<rparr>" "''./''"]
    by (simp add: finished_def StatusMovedPermanently_def)
qed

text \<open>
  C8. The request resolves to a file and the handler gets as far as
  \<open>http.ServeContent\<close>. The content served reads from the very file that was opened.
  When \<open>GetEncoding\<close> reports that the file came from the cache, the response writer
  is not replaced by a compressing writer, whatever \<open>Options.Compress\<close> is, and when
  the recorded encoding is not empty the writer handed to \<open>http.ServeContent\<close> has that
  encoding as its \<open>Content-Encoding\<close> header. The writer is replaced by a compressing
  one only for a file that is not a cached one, with \<open>Options.Compress\<close> on.
\<close>

theorem cached_file_not_compressed_again:
  assumes name: "name = prefix (URL_Path r) ''/''"
      and resolved: "resolve fs (FileServer_options ext options) name (r\<lparr>URL_Path := name\<rparr>)
                       = Some (Inr (f, info, indexFound))"
      and regular: "\<not> IsDir info"
      and run: "FileServer fuel ext fs options w r = Some (Inr out)"
      and served: "out_served out = Some sc"
  shows "content_file (sc_content sc) = f
       \<and> (\<forall>encoding. GetEncoding (Some f) = (encoding, True) \<longrightarrow>
            \<not> out_compressing out \<and>
            (encoding \<noteq> [] \<longrightarrow> w_Header (sc_w sc) ''Content-Encoding'' = [encoding]))
       \<and> (out_compressing out \<longrightarrow> \<not> snd (GetEncoding (Some f)) \<and> Compress options)"
proof -
  let ?o = "FileServer_options ext options"
  let ?r = "r\<lparr>URL_Path := name\<rparr>"
  from run resolved regular have sf:
    "serve_file fuel ext fs ?o w ?r name f info indexFound = Some (Inr out)"
    by (simp add: FileServer_def handler_def Let_def name [symmetric])
  from sf served obtain w1 content w2 enc w3 c pushed where
    att: "attachment_stage ?o w1 f info indexFound = (content, w2)" and
    es: "encoding_stage ext ?o w2 ?r f = (enc, w3, c)" and
    out: "out = \<lparr>out_w = w3, out_compressing = c, out_pushes = pushed,
                 out_served = Some \<lparr>sc_w = w3, sc_name = Name info, sc_modtime = ModTime info,
                                     sc_content = content\<rparr>\<rparr>"
    by (auto simp: serve_file_def finished_def
        split: if_splits prod.splits option.splits sum.splits)
  from out served have sc: "sc = \<lparr>sc_w = w3, sc_name = Name info, sc_modtime = ModTime info,
                                   sc_content = content\<rparr>"
    by simp
  have a: "content_file (sc_content sc) = f"
    using attachment_stage_file [OF att] sc by simp
  have b: "\<not> out_compressing out \<and>
            (encoding \<noteq> [] \<longrightarrow> w_Header (sc_w sc) ''Content-Encoding'' = [encoding])"
    if "GetEncoding (Some f) = (encoding, True)" for encoding
    using encoding_stage_header [OF es that] out sc by simp
  have c: "\<not> snd (GetEncoding (Some f)) \<and> Compress options" if "out_compressing out"
  proof -
    from that out have "c" by simp
    with es encoding_stage_compressing [of ext ?o w2 ?r f enc w3]
    show ?thesis by (simp add: FileServer_options_Compress)
  qed
  from a b c show ?thesis by blast
qed

text \<open>
  C9. Every entry the built cache hands out, through \<open>Open\<close> or through \<open>Ropen\<close>, a
  file or a directory, has a \<open>Stat\<close> that succeeds with a \<open>Size()\<close> of zero, whatever
  the length of the stored contents.
\<close>

theorem cached_Stat_Size_zero:
  assumes build: "Cache fuel cw fs options = Some (Inr c)"
  shows "(cacheFS_Open c name = Some (Inr h) \<longrightarrow> (\<exists>i. Stat h = Inr i \<and> Size i = 0))
       \<and> (cacheFS_Ropen neg c name r = Some (Inr h) \<longrightarrow> (\<exists>i. Stat h = Inr i \<and> Size i = 0))"
proof -
  from Cache_parts [OF build] obtain names where
    dirs: "findDirs fs names = Some (Inr (c_dirs c))" by blast
  have d: "Size (d_FileInfo d) = 0" if "c_dirs c k = Some d" for k d
    using findDirs_Size [OF dirs that] .
  have f: "\<exists>i. Stat h = Inr i \<and> Size i = 0"
    if "c_files c k = Some f" "file_Get f alg = Some (Inr h)" for k f alg
  proof -
    from Cache_file_entry [OF build that(1)] obtain finfo contents where
      e: "cacheFiles_entry cw (Encodings options) (CompressMinSize options)
            (CompressIgnore options) k finfo contents = Inr f" by blast
    from cacheFiles_entry_original_key [OF e] obtain orig where "f_algs f [] = Some orig" ..
    from file_Get_total [OF this, of alg] that(2) cacheFiles_entry_Size [OF e]
    show ?thesis by auto
  qed
  show ?thesis
    by (auto simp: cacheFS_Open_def cacheFS_Ropen_def Let_def d
        split: option.splits dest: f)
qed
text \<open>
  In the example the file \<open>/a/b.txt\<close>, opened plainly (three bytes) or with a
  negotiated \<open>gzip\<close> (five bytes), and the directory \<open>/a\<close> all report the size zero.
\<close>

theorem cached_Stat_Size_zero_witness:
  "(\<exists>h i. cacheFS_Open demo_cache ''/a/b.txt'' = Some (Inr h) \<and>
          ReadAll h = Inr [1, 2, 3] \<and> Stat h = Inr i \<and> Size i = 0) \<and>
   (\<exists>h i. cacheFS_Open demo_cache ''/a'' = Some (Inr h) \<and>
          map_sum id (map Name) (Readdir h) = Inr [''b.txt'', ''c''] \<and>
          Stat h = Inr i \<and> Size i = 0) \<and>
   (\<exists>h i. cacheFS_Ropen demo_GetEncoding demo_cache ''/a/b.txt''
            (demo_request ''/a/b.txt'' [] ''gzip'') = Some (Inr h) \<and>
          ReadAll h = Inr [31, 139, 1, 2, 3] \<and> Stat h = Inr i \<and> Size i = 0)"
proof -
  from demo_open_b obtain hb where
    hb: "cacheFS_Open demo_cache ''/a/b.txt'' = Some (Inr hb)" "ReadAll hb = Inr [1, 2, 3]"
    by (auto split: option.splits sum.splits)
  from demo_open_a obtain ha where
    ha: "cacheFS_Open demo_cache ''/a'' = Some (Inr ha)"
        "map_sum id (map Name) (Readdir ha) = Inr [''b.txt'', ''c'']"
    by (auto split: option.splits sum.splits)
  from demo_ropen_b obtain hr where
    hr: "cacheFS_Ropen demo_GetEncoding demo_cache ''/a/b.txt''
           (demo_request ''/a/b.txt'' [] ''gzip'') = Some (Inr hr)"
        "ReadAll hr = Inr [31, 139, 1, 2, 3]"
    by (auto split: option.splits sum.splits)
  from cached_Stat_Size_zero [OF demo_build, of "''/a/b.txt''" hb] hb
  have 1: "\<exists>h i. cacheFS_Open demo_cache ''/a/b.txt'' = Some (Inr h) \<and>
          ReadAll h = Inr [1, 2, 3] \<and> Stat h = Inr i \<and> Size i = 0"
    by blast
  from cached_Stat_Size_zero [OF demo_build, of "''/a''" ha] ha
  have 2: "\<exists>h i. cacheFS_Open demo_cache ''/a'' = Some (Inr h) \<and>
          map_sum id (map Name) (Readdir h) = Inr [''b.txt'', ''c''] \<and>
          Stat h = Inr i \<and> Size i = 0"
    by blast
  from cached_Stat_Size_zero [OF demo_build, of "''/a/b.txt''" hr demo_GetEncoding
      "demo_request ''/a/b.txt'' [] ''gzip''"] hr
  have 3: "\<exists>h i. cacheFS_Ropen demo_GetEncoding demo_cache ''/a/b.txt''
            (demo_request ''/a/b.txt'' [] ''gzip'') = Some (Inr h) \<and>
          ReadAll h = Inr [31, 139, 1, 2, 3] \<and> Stat h = Inr i \<and> Size i = 0"
    by blast
  from 1 2 3 show ?thesis by blast
qed


end
